theory Spec2Isabelle
  imports Main
begin

section \<open>Scope of the model\<close>

text \<open>
  The model follows \<open>server.c\<close> function by function. Events are handled one at a
  time, as a single service thread delivers them; the locks are not modelled. Memory
  allocation is taken to succeed, and so are the SQLite calls that bind parameters and
  read rows of an open database; the step of the insert statement may fail, and the
  database may be closed. A write to a connection is recorded as the attempt, whatever
  the transport does with it.
\<close>

section \<open>C strings and the libc functions the server uses\<close>

text \<open>
  A received frame is a list of bytes. The server copies it into a buffer with a
  terminating NUL and from then on reads it with the C string functions, which stop at
  the first NUL byte: \<open>cstr\<close> is the text such a function sees.
\<close>

definition cstr :: "char list \<Rightarrow> string" where
  "cstr bs = takeWhile (\<lambda>b. b \<noteq> CHR 0x00) bs"

text \<open>\<open>snprintf(buf, size, "%s", s)\<close>: at most \<open>size - 1\<close> bytes are stored.\<close>

definition snprintf :: "nat \<Rightarrow> string \<Rightarrow> string" where
  "snprintf n s = take (n - 1) s"

text \<open>\<open>tolower\<close> in the C locale.\<close>

definition tolower_c :: "char \<Rightarrow> char" where
  "tolower_c c =
     (case map_of (zip ''ABCDEFGHIJKLMNOPQRSTUVWXYZ'' ''abcdefghijklmnopqrstuvwxyz'') c of
        Some l \<Rightarrow> l
      | None \<Rightarrow> c)"

text \<open>\<open>strcasecmp(a, b) == 0\<close>; the source only ever tests the result against zero.\<close>

definition strcasecmp_eq :: "string \<Rightarrow> string \<Rightarrow> bool" where
  "strcasecmp_eq a b = (map tolower_c a = map tolower_c b)"

text \<open>\<open>strncmp(a, b, n) == 0\<close>.\<close>

definition strncmp_eq :: "char list \<Rightarrow> char list \<Rightarrow> nat \<Rightarrow> bool" where
  "strncmp_eq a b n = (take n (cstr a) = take n (cstr b))"

text \<open>The loop \<open>while (*p == ' ' || *p == '\t') p++;\<close>.\<close>

fun skip_blanks :: "char list \<Rightarrow> char list" where
  "skip_blanks [] = []"
| "skip_blanks (b # bs) =
     (if b = CHR '' '' \<or> b = CHR 0x09 then skip_blanks bs else b # bs)"

text \<open>The conversion \<open>%d\<close> of a count, which is never negative.\<close>

fun fmt_d :: "nat \<Rightarrow> string" where
  "fmt_d n =
     (if n < 10 then [''0123456789'' ! n]
      else fmt_d (n div 10) @ [''0123456789'' ! (n mod 10)])"

declare fmt_d.simps [simp del]

section \<open>Constants\<close>

definition MAX_NAME_LEN :: nat where "MAX_NAME_LEN = 64"
definition MAX_ROLE_LEN :: nat where "MAX_ROLE_LEN = 16"
definition MAX_MSG_LEN :: nat where "MAX_MSG_LEN = 4096"
definition HISTORY_LIMIT :: int where "HISTORY_LIMIT = 500"

section \<open>The client list\<close>

text \<open>
  A connection handle stands for a non-NULL \<open>struct lws *\<close> of the transport. The linked
  list \<open>clients_head\<close> is a list whose head is the most recently added client.
\<close>

type_synonym handle = nat

record client =
  wsi :: handle
  username :: string
  role :: string

definition add_client :: "handle \<Rightarrow> client list \<Rightarrow> client list" where
  "add_client w cs =
     \<lparr>wsi = w, username = snprintf MAX_NAME_LEN ''Anonymous'',
      role = snprintf MAX_ROLE_LEN ''NONE''\<rparr> # cs"

fun remove_client :: "handle \<Rightarrow> client list \<Rightarrow> client list" where
  "remove_client w [] = []"
| "remove_client w (p # ps) = (if wsi p = w then ps else p # remove_client w ps)"

fun find_client :: "handle \<Rightarrow> client list \<Rightarrow> client option" where
  "find_client w [] = None"
| "find_client w (p # ps) = (if wsi p = w then Some p else find_client w ps)"

text \<open>
  A write through the pointer that \<open>find_client\<close> returned: the first client with
  this handle is changed in place.
\<close>

fun update_client :: "handle \<Rightarrow> (client \<Rightarrow> client) \<Rightarrow> client list \<Rightarrow> client list" where
  "update_client w f [] = []"
| "update_client w f (p # ps) = (if wsi p = w then f p # ps else p # update_client w f ps)"

fun count_loop :: "client list \<Rightarrow> nat \<Rightarrow> nat \<Rightarrow> nat \<times> nat" where
  "count_loop [] r w = (r, w)"
| "count_loop (p # ps) r w =
     (if strcasecmp_eq (role p) ''WRITER'' then count_loop ps r (w + 1)
      else if strcasecmp_eq (role p) ''READER'' then count_loop ps (r + 1) w
      else count_loop ps r w)"

text \<open>\<open>count_roles\<close> returns the pair (readers, writers).\<close>

definition count_roles :: "client list \<Rightarrow> nat \<times> nat" where
  "count_roles cs = count_loop cs 0 0"

definition collect_wsis :: "client list \<Rightarrow> handle list" where
  "collect_wsis cs = map wsi cs"

definition active_readers :: "client list \<Rightarrow> nat" where
  "active_readers cs = fst (count_roles cs)"

definition active_writers :: "client list \<Rightarrow> nat" where
  "active_writers cs = snd (count_roles cs)"

definition can_admit_as_reader :: "client list \<Rightarrow> bool" where
  "can_admit_as_reader cs = (active_writers cs = 0)"

definition can_admit_as_writer :: "client list \<Rightarrow> bool" where
  "can_admit_as_writer cs = (active_writers cs = 0 \<and> active_readers cs = 0)"

section \<open>The message table\<close>

text \<open>
  The global \<open>db\<close> is \<open>None\<close> when the database handle (and with it both prepared
  statements) is NULL, and otherwise holds the rows (username, message) of the table
  \<open>messages\<close> in the order of their ids, oldest first.
\<close>

type_synonym row = "string \<times> string"
type_synonym sqlite3 = "row list option"

text \<open>
  What the server emits: a frame written to a connection with \<open>lws_write\<close>, or a line
  printed on stderr.
\<close>

datatype action = Write handle string | Stderr string

text \<open>
  \<open>db_insert_message\<close>. The outcome of \<open>sqlite3_step\<close> is decided by the database
  engine: \<open>step_err\<close> is \<open>None\<close> when the step completes and the error text of
  \<open>sqlite3_errmsg\<close> when it fails, in which case no row is added. The result is the
  return code, the table and the lines logged.
\<close>

definition db_insert_message ::
    "string option \<Rightarrow> string \<Rightarrow> string \<Rightarrow> sqlite3 \<Rightarrow> int \<times> sqlite3 \<times> action list" where
  "db_insert_message step_err uname message d =
     (case d of
        None \<Rightarrow> (- 1, d, [])
      | Some tbl \<Rightarrow>
          (case step_err of
             Some e \<Rightarrow> (- 1, d, [Stderr (''Failed to insert message: '' @ e @ [CHR 0x0A])])
           | None \<Rightarrow> (0, Some (tbl @ [(uname, message)]), [])))"

text \<open>
  The statement \<open>SELECT username, message, ts FROM messages ORDER BY id DESC LIMIT ?\<close>:
  the newest rows first; a negative limit is no limit in SQLite.
\<close>

definition select_recent :: "int \<Rightarrow> row list \<Rightarrow> row list" where
  "select_recent limit tbl = (if limit < 0 then rev tbl else take (nat limit) (rev tbl))"

definition format_row :: "row \<Rightarrow> string" where
  "format_row r = fst r @ '': '' @ snd r"

text \<open>
  The loop \<open>for (i = arr_len - 1; i >= 0; --i)\<close> that appends \<open>rows[i]\<close> and, unless
  \<open>i\<close> is zero, a newline; the second argument is \<open>i + 1\<close>.
\<close>

fun strcat_rows :: "string list \<Rightarrow> nat \<Rightarrow> string \<Rightarrow> string" where
  "strcat_rows rs 0 out = out"
| "strcat_rows rs (Suc i) out =
     strcat_rows rs i (out @ rs ! i @ (if i > 0 then [CHR 0x0A] else []))"

definition db_get_history_snapshot :: "int \<Rightarrow> sqlite3 \<Rightarrow> string option" where
  "db_get_history_snapshot limit d =
     (case d of
        None \<Rightarrow> None
      | Some tbl \<Rightarrow>
          (let rs = map format_row (select_recent limit tbl)
           in Some (strcat_rows rs (length rs) [])))"

section \<open>Sending\<close>

definition send_to_client :: "client \<Rightarrow> string \<Rightarrow> action list" where
  "send_to_client c msg = [Write (wsi c) msg]"

definition broadcast_text :: "client list \<Rightarrow> string \<Rightarrow> action list" where
  "broadcast_text cs message = map (\<lambda>w. Write w message) (collect_wsis cs)"

definition broadcast_counts :: "client list \<Rightarrow> action list" where
  "broadcast_counts cs =
     (let (readers, writers) = count_roles cs
      in broadcast_text cs
           (snprintf 128 (''SYSTEM_COUNTS:'' @ fmt_d readers @ '':'' @ fmt_d writers)))"

section \<open>The callback\<close>

record server =
  clients_head :: "client list"
  db :: sqlite3

text \<open>
  The reasons the callback handles. A received frame comes with its bytes and with the
  outcome of the insert step, should the frame reach \<open>db_insert_message\<close>.
\<close>

datatype lws_callback_reasons =
    LWS_CALLBACK_ESTABLISHED
  | LWS_CALLBACK_RECEIVE "char list" "string option"
  | LWS_CALLBACK_CLOSED
  | LWS_CALLBACK_OTHER

definition rejection_notice :: string where
  "rejection_notice =
     ''System: You are a READER '' @ [CHR 0xE2, CHR 0x80, CHR 0x94]
       @ '' you cannot send messages.''"

definition on_username :: "handle \<Rightarrow> char list \<Rightarrow> server \<Rightarrow> server \<times> action list" where
  "on_username w msg s =
     (let uname = skip_blanks (drop 9 msg)
      in (s\<lparr>clients_head :=
              update_client w (\<lambda>c. c\<lparr>username := snprintf MAX_NAME_LEN (cstr uname)\<rparr>)
                (clients_head s)\<rparr>, []))"

definition on_role :: "handle \<Rightarrow> client \<Rightarrow> char list \<Rightarrow> server \<Rightarrow> server \<times> action list" where
  "on_role w c msg s =
     (let r = skip_blanks (drop 5 msg);
          (s1, out1) =
            (if strcasecmp_eq (cstr r) ''WRITER'' then
               (if can_admit_as_writer (clients_head s) then
                  (let s' = s\<lparr>clients_head :=
                              update_client w (\<lambda>c. c\<lparr>role := snprintf MAX_ROLE_LEN ''WRITER''\<rparr>)
                                (clients_head s)\<rparr>;
                       snap = db_get_history_snapshot HISTORY_LIMIT (db s');
                       sysmsg = snprintf 200 (''System: '' @ username c @ '' joined as Writer'')
                   in (s', (case snap of Some t \<Rightarrow> send_to_client c t | None \<Rightarrow> [])
                           @ send_to_client c ''ROLE_CONFIRMED:writer''
                           @ broadcast_text (clients_head s') sysmsg))
                else
                  (s, send_to_client c ''ROLE_DENIED:A writer or readers are already inside.''))
             else
               (if can_admit_as_reader (clients_head s) then
                  (let s' = s\<lparr>clients_head :=
                              update_client w (\<lambda>c. c\<lparr>role := snprintf MAX_ROLE_LEN ''READER''\<rparr>)
                                (clients_head s)\<rparr>;
                       snap = db_get_history_snapshot HISTORY_LIMIT (db s');
                       sysmsg = snprintf 200 (''System: '' @ username c @ '' joined as Reader'')
                   in (s', (case snap of Some t \<Rightarrow> send_to_client c t | None \<Rightarrow> [])
                           @ send_to_client c ''ROLE_CONFIRMED:reader''
                           @ broadcast_text (clients_head s') sysmsg))
                else
                  (s, send_to_client c ''ROLE_DENIED:A writer is already inside.'')))
      in (s1, out1 @ broadcast_counts (clients_head s1)))"

definition on_get_history :: "client \<Rightarrow> server \<Rightarrow> server \<times> action list" where
  "on_get_history c s =
     (case db_get_history_snapshot HISTORY_LIMIT (db s) of
        Some snap \<Rightarrow> (s, send_to_client c snap)
      | None \<Rightarrow> (s, send_to_client c []))"

definition on_chat :: "client \<Rightarrow> char list \<Rightarrow> string option \<Rightarrow> server \<Rightarrow> server \<times> action list" where
  "on_chat c msg step_err s =
     (if \<not> strcasecmp_eq (role c) ''WRITER'' then
        (s, send_to_client c (snprintf 200 rejection_notice))
      else
        (let out = snprintf MAX_MSG_LEN
                     ((if username c \<noteq> [] then username c else ''Anon'') @ '': '' @ cstr msg);
             (rc, d, logged) = db_insert_message step_err (username c) (cstr msg) (db s);
             warned = (if rc \<noteq> 0
                       then [Stderr (''Warning: failed to insert message into DB'' @ [CHR 0x0A])]
                       else [])
         in (s\<lparr>db := d\<rparr>, logged @ warned @ broadcast_text (clients_head s) out)))"

fun ws_callback :: "handle \<Rightarrow> lws_callback_reasons \<Rightarrow> server \<Rightarrow> server \<times> action list" where
  "ws_callback w LWS_CALLBACK_ESTABLISHED s =
     (s\<lparr>clients_head := add_client w (clients_head s)\<rparr>, [])"
| "ws_callback w (LWS_CALLBACK_RECEIVE msg step_err) s =
     (case find_client w (clients_head s) of
        None \<Rightarrow> (s, [])
      | Some c \<Rightarrow>
          if strncmp_eq msg ''username:'' 9 then on_username w msg s
          else if strncmp_eq msg ''role:'' 5 then on_role w c msg s
          else if strncmp_eq msg ''get_history'' 11 then on_get_history c s
          else on_chat c msg step_err s)"
| "ws_callback w LWS_CALLBACK_CLOSED s =
     (case find_client w (clients_head s) of
        Some c \<Rightarrow>
          if strcasecmp_eq (role c) ''WRITER'' then
            (let sysmsg = snprintf 200 (''System: '' @ username c @ '' disconnected.'');
                 s' = s\<lparr>clients_head := remove_client w (clients_head s)\<rparr>
             in (s', broadcast_text (clients_head s') sysmsg @ broadcast_counts (clients_head s'))
            )
          else
            (let s' = s\<lparr>clients_head := remove_client w (clients_head s)\<rparr>
             in (s', broadcast_counts (clients_head s')))
      | None \<Rightarrow>
          (let s' = s\<lparr>clients_head := remove_client w (clients_head s)\<rparr>
           in (s', broadcast_counts (clients_head s'))))"
| "ws_callback w LWS_CALLBACK_OTHER s = (s, [])"

section \<open>Runs of the server\<close>

text \<open>
  \<open>main\<close> serves connections only after \<open>init_db\<close> has succeeded: the client list is
  empty and the database is open. \<open>init_db\<close> deletes all rows, and keeps going if the
  deletion fails, so the table starts as \<open>tbl\<close>, empty in the normal case.
\<close>

definition server_start :: "row list \<Rightarrow> server" where
  "server_start tbl = \<lparr>clients_head = [], db = Some tbl\<rparr>"

text \<open>The service loop delivers one event after the other; the outputs accumulate.\<close>

fun run :: "(handle \<times> lws_callback_reasons) list \<Rightarrow> server \<Rightarrow> server \<times> action list" where
  "run [] s = (s, [])"
| "run (e # es) s =
     (let (s1, out1) = ws_callback (fst e) (snd e) s;
          (s2, out2) = run es s1
      in (s2, out1 @ out2))"

section \<open>Predicates and scenarios of the properties\<close>

definition is_writer :: "client \<Rightarrow> bool" where
  "is_writer p = strcasecmp_eq (role p) ''WRITER''"

definition is_reader :: "client \<Rightarrow> bool" where
  "is_reader p = strcasecmp_eq (role p) ''READER''"

definition role_exclusion :: "client list \<Rightarrow> bool" where
  "role_exclusion cs =
     (length (filter is_writer cs) \<le> 1 \<and>
      ((\<exists>c \<in> set cs. is_writer c) \<longrightarrow> (\<forall>c \<in> set cs. \<not> is_reader c)))"

definition wants_writer :: "char list \<Rightarrow> bool" where
  "wants_writer msg = strcasecmp_eq (cstr (skip_blanks (drop 5 msg))) ''WRITER''"

definition two_readers :: "(handle \<times> lws_callback_reasons) list" where
  "two_readers =
     [(1, LWS_CALLBACK_ESTABLISHED), (2, LWS_CALLBACK_ESTABLISHED),
      (1, LWS_CALLBACK_RECEIVE ''role:reader'' None),
      (2, LWS_CALLBACK_RECEIVE ''role:reader'' None)]"

definition writer_and_guest :: "(handle \<times> lws_callback_reasons) list" where
  "writer_and_guest =
     [(1, LWS_CALLBACK_ESTABLISHED), (1, LWS_CALLBACK_RECEIVE ''role:writer'' None),
      (2, LWS_CALLBACK_ESTABLISHED), (2, LWS_CALLBACK_RECEIVE ''role:reader'' None)]"

definition is_blank :: "char \<Rightarrow> bool" where
  "is_blank b = (b = CHR '' '' \<or> b = CHR 0x09)"

definition counts_line :: "client list \<Rightarrow> string" where
  "counts_line cs =
     snprintf 128 (''SYSTEM_COUNTS:'' @ fmt_d (length (filter is_reader cs)) @ '':''
                    @ fmt_d (length (filter is_writer cs)))"

definition set_role :: "handle \<Rightarrow> string \<Rightarrow> client list \<Rightarrow> client list" where
  "set_role w r cs = update_client w (\<lambda>c. c\<lparr>role := r\<rparr>) cs"

definition history_reply :: "client \<Rightarrow> sqlite3 \<Rightarrow> action list" where
  "history_reply c d =
     (case db_get_history_snapshot HISTORY_LIMIT d of
        Some t \<Rightarrow> [Write (wsi c) t]
      | None \<Rightarrow> [])"

definition role_granted ::
    "client \<Rightarrow> string \<Rightarrow> string \<Rightarrow> string \<Rightarrow> server \<Rightarrow> server \<times> action list" where
  "role_granted c r tag title s =
     (let cs' = set_role (wsi c) r (clients_head s)
      in (s\<lparr>clients_head := cs'\<rparr>,
          history_reply c (db s)
          @ [Write (wsi c) (''ROLE_CONFIRMED:'' @ tag)]
          @ map (\<lambda>p. Write (wsi p)
                   (snprintf 200 (''System: '' @ username c @ '' joined as '' @ title))) cs'
          @ map (\<lambda>p. Write (wsi p) (counts_line cs')) cs'))"

definition role_denied :: "client \<Rightarrow> string \<Rightarrow> server \<Rightarrow> server \<times> action list" where
  "role_denied c reason s =
     (s, Write (wsi c) (''ROLE_DENIED:'' @ reason)
         # map (\<lambda>p. Write (wsi p) (counts_line (clients_head s))) (clients_head s))"

definition well_started :: "server \<Rightarrow> bool" where
  "well_started s =
     (db s \<noteq> None \<and> list_all (\<lambda>c. length (username c) < MAX_NAME_LEN) (clients_head s))"

fun join_lines :: "string list \<Rightarrow> string" where
  "join_lines [] = []"
| "join_lines [l] = l"
| "join_lines (l # l' # ls) = l @ [CHR 0x0A] @ join_lines (l' # ls)"

definition last_rows :: "nat \<Rightarrow> row list \<Rightarrow> row list" where
  "last_rows n tbl = drop (length tbl - n) tbl"


definition grant_outputs ::
    "client \<Rightarrow> string \<Rightarrow> string \<Rightarrow> row list \<Rightarrow> client list \<Rightarrow> action list" where
  "grant_outputs c tag title tbl cs' =
     Write (wsi c) (join_lines (map format_row (last_rows 500 tbl)))
     # Write (wsi c) (''ROLE_CONFIRMED:'' @ tag)
     # map (\<lambda>p. Write (wsi p) (''System: '' @ username c @ '' joined as '' @ title)) cs'
     @ map (\<lambda>p. Write (wsi p) (counts_line cs')) cs'"

definition lone_guest :: "(handle \<times> lws_callback_reasons) list" where
  "lone_guest = [(1, LWS_CALLBACK_ESTABLISHED)]"

definition chat_line :: "client \<Rightarrow> char list \<Rightarrow> string" where
  "chat_line c msg =
     take 4095 ((if username c = [] then ''Anon'' else username c) @ '': '' @ cstr msg)"

definition insert_warning :: action where
  "insert_warning = Stderr (''Warning: failed to insert message into DB'' @ [CHR 0x0A])"

definition nameless_writer :: "(handle \<times> lws_callback_reasons) list" where
  "nameless_writer =
     [(1, LWS_CALLBACK_ESTABLISHED), (1, LWS_CALLBACK_RECEIVE ''username:'' None),
      (1, LWS_CALLBACK_RECEIVE ''role:writer'' None)]"


definition normalized_name :: "char list \<Rightarrow> string" where
  "normalized_name v = take 63 (dropWhile is_blank (cstr v))"

section \<open>Counting roles\<close>

lemma writer_not_reader: "strcasecmp_eq r ''WRITER'' \<Longrightarrow> \<not> strcasecmp_eq r ''READER''"
  by (auto simp add: strcasecmp_eq_def tolower_c_def)

lemma none_no_role:
  "\<not> strcasecmp_eq (snprintf MAX_ROLE_LEN ''NONE'') ''WRITER''"
  "\<not> strcasecmp_eq (snprintf MAX_ROLE_LEN ''NONE'') ''READER''"
  by (simp_all add: strcasecmp_eq_def tolower_c_def snprintf_def MAX_ROLE_LEN_def)

lemma role_literals:
  "strcasecmp_eq (snprintf MAX_ROLE_LEN ''WRITER'') ''WRITER''"
  "\<not> strcasecmp_eq (snprintf MAX_ROLE_LEN ''WRITER'') ''READER''"
  "strcasecmp_eq (snprintf MAX_ROLE_LEN ''READER'') ''READER''"
  "\<not> strcasecmp_eq (snprintf MAX_ROLE_LEN ''READER'') ''WRITER''"
  by (simp_all add: strcasecmp_eq_def tolower_c_def snprintf_def MAX_ROLE_LEN_def)

lemma count_loop_filter:
  "count_loop cs r w =
     (r + length (filter is_reader cs), w + length (filter is_writer cs))"
  by (induction cs arbitrary: r w) (auto simp: is_reader_def is_writer_def writer_not_reader)

lemma active_writers_filter: "active_writers cs = length (filter is_writer cs)"
  by (simp add: active_writers_def count_roles_def count_loop_filter)

lemma active_readers_filter: "active_readers cs = length (filter is_reader cs)"
  by (simp add: active_readers_def count_roles_def count_loop_filter)

lemma filter_update_le:
  "(\<And>p. P (f p) \<Longrightarrow> P p) \<Longrightarrow>
     length (filter P (update_client w f cs)) \<le> length (filter P cs)"
  by (induction cs) auto

lemma filter_update_Suc:
  "length (filter P (update_client w f cs)) \<le> Suc (length (filter P cs))"
  by (induction cs) auto

lemma filter_remove_le:
  "length (filter P (remove_client w cs)) \<le> length (filter P cs)"
  by (induction cs) auto

lemma role_exclusion_counts:
  "role_exclusion cs \<longleftrightarrow>
     (active_writers cs \<le> 1 \<and> (0 < active_writers cs \<longrightarrow> active_readers cs = 0))"
  by (auto simp: role_exclusion_def active_writers_filter active_readers_filter
        filter_empty_conv)

lemma role_exclusion_mono:
  assumes "role_exclusion cs"
    and "active_writers cs' \<le> active_writers cs"
    and "active_readers cs' \<le> active_readers cs"
  shows "role_exclusion cs'"
  using assms unfolding role_exclusion_counts by auto

lemma on_role_writer_granted:
  assumes "wants_writer msg" and "can_admit_as_writer (clients_head s)"
  shows "on_role w c msg s =
    (let cs' = update_client w (\<lambda>c. c\<lparr>role := snprintf MAX_ROLE_LEN ''WRITER''\<rparr>) (clients_head s)
     in (s\<lparr>clients_head := cs'\<rparr>,
         (case db_get_history_snapshot HISTORY_LIMIT (db s) of
            Some t \<Rightarrow> [Write (wsi c) t] | None \<Rightarrow> [])
         @ [Write (wsi c) ''ROLE_CONFIRMED:writer'']
         @ broadcast_text cs' (snprintf 200 (''System: '' @ username c @ '' joined as Writer''))
         @ broadcast_counts cs'))"
  using assms
  by (simp add: on_role_def wants_writer_def Let_def send_to_client_def split: option.splits)

lemma on_role_writer_denied:
  assumes "wants_writer msg" and "\<not> can_admit_as_writer (clients_head s)"
  shows "on_role w c msg s =
    (s, Write (wsi c) ''ROLE_DENIED:A writer or readers are already inside.''
          # broadcast_counts (clients_head s))"
  using assms by (simp add: on_role_def wants_writer_def Let_def send_to_client_def)

lemma on_role_reader_granted:
  assumes "\<not> wants_writer msg" and "can_admit_as_reader (clients_head s)"
  shows "on_role w c msg s =
    (let cs' = update_client w (\<lambda>c. c\<lparr>role := snprintf MAX_ROLE_LEN ''READER''\<rparr>) (clients_head s)
     in (s\<lparr>clients_head := cs'\<rparr>,
         (case db_get_history_snapshot HISTORY_LIMIT (db s) of
            Some t \<Rightarrow> [Write (wsi c) t] | None \<Rightarrow> [])
         @ [Write (wsi c) ''ROLE_CONFIRMED:reader'']
         @ broadcast_text cs' (snprintf 200 (''System: '' @ username c @ '' joined as Reader''))
         @ broadcast_counts cs'))"
  using assms
  by (simp add: on_role_def wants_writer_def Let_def send_to_client_def split: option.splits)

lemma on_role_reader_denied:
  assumes "\<not> wants_writer msg" and "\<not> can_admit_as_reader (clients_head s)"
  shows "on_role w c msg s =
    (s, Write (wsi c) ''ROLE_DENIED:A writer is already inside.''
          # broadcast_counts (clients_head s))"
  using assms by (simp add: on_role_def wants_writer_def Let_def send_to_client_def)

lemma role_exclusion_on_role:
  assumes "role_exclusion (clients_head s)"
  shows "role_exclusion (clients_head (fst (on_role w c msg s)))"
proof (cases "wants_writer msg")
  case True
  show ?thesis
  proof (cases "can_admit_as_writer (clients_head s)")
    case admit: True
    let ?f = "\<lambda>c. c\<lparr>role := snprintf MAX_ROLE_LEN ''WRITER''\<rparr>"
    let ?cs' = "update_client w ?f (clients_head s)"
    from admit have zero: "active_writers (clients_head s) = 0" "active_readers (clients_head s) = 0"
      by (simp_all add: can_admit_as_writer_def)
    have "active_writers ?cs' \<le> 1"
      using filter_update_Suc [of is_writer w ?f "clients_head s"] zero
      by (simp add: active_writers_filter)
    moreover have "active_readers ?cs' \<le> active_readers (clients_head s)"
      unfolding active_readers_filter
      by (rule filter_update_le) (simp add: is_reader_def role_literals)
    ultimately have "role_exclusion ?cs'"
      using zero by (simp add: role_exclusion_counts)
    then show ?thesis
      using True admit by (simp add: on_role_writer_granted Let_def)
  next
    case False
    then show ?thesis using True assms by (simp add: on_role_writer_denied)
  qed
next
  case False
  show ?thesis
  proof (cases "can_admit_as_reader (clients_head s)")
    case admit: True
    let ?f = "\<lambda>c. c\<lparr>role := snprintf MAX_ROLE_LEN ''READER''\<rparr>"
    let ?cs' = "update_client w ?f (clients_head s)"
    from admit have zero: "active_writers (clients_head s) = 0"
      by (simp add: can_admit_as_reader_def)
    have "active_writers ?cs' \<le> active_writers (clients_head s)"
      unfolding active_writers_filter
      by (rule filter_update_le) (simp add: is_writer_def role_literals)
    then have "role_exclusion ?cs'"
      using zero by (simp add: role_exclusion_counts)
    then show ?thesis
      using False admit by (simp add: on_role_reader_granted Let_def)
  next
    case deny: False
    then show ?thesis using False assms by (simp add: on_role_reader_denied)
  qed
qed

lemma role_exclusion_on_username:
  assumes "role_exclusion (clients_head s)"
  shows "role_exclusion (clients_head (fst (on_username w msg s)))"
proof -
  let ?f = "\<lambda>c. c\<lparr>username := snprintf MAX_NAME_LEN (cstr (skip_blanks (drop 9 msg)))\<rparr>"
  have "active_writers (update_client w ?f (clients_head s)) \<le> active_writers (clients_head s)"
    unfolding active_writers_filter by (rule filter_update_le) (simp add: is_writer_def)
  moreover
  have "active_readers (update_client w ?f (clients_head s)) \<le> active_readers (clients_head s)"
    unfolding active_readers_filter by (rule filter_update_le) (simp add: is_reader_def)
  ultimately show ?thesis
    using role_exclusion_mono [OF assms] by (simp add: on_username_def Let_def)
qed

lemma clients_on_get_history: "clients_head (fst (on_get_history c s)) = clients_head s"
  by (simp add: on_get_history_def split: option.splits)

lemma clients_on_chat: "clients_head (fst (on_chat c msg e s)) = clients_head s"
  by (simp add: on_chat_def Let_def split: prod.splits)

lemma role_exclusion_remove:
  assumes "role_exclusion cs"
  shows "role_exclusion (remove_client w cs)"
  using role_exclusion_mono [OF assms]
  by (simp add: active_writers_filter active_readers_filter filter_remove_le)

lemma role_exclusion_add:
  assumes "role_exclusion cs"
  shows "role_exclusion (add_client w cs)"
  using role_exclusion_mono [OF assms]
  by (simp add: active_writers_filter active_readers_filter add_client_def
        is_writer_def is_reader_def none_no_role)

lemma role_exclusion_step:
  assumes "role_exclusion (clients_head s)"
  shows "role_exclusion (clients_head (fst (ws_callback w r s)))"
proof (cases r)
  case LWS_CALLBACK_ESTABLISHED
  then show ?thesis using assms by (simp add: role_exclusion_add)
next
  case (LWS_CALLBACK_RECEIVE msg e)
  then show ?thesis
    using assms
    by (simp add: role_exclusion_on_username role_exclusion_on_role
          clients_on_get_history clients_on_chat split: option.splits)
next
  case LWS_CALLBACK_CLOSED
  then show ?thesis
    using assms by (simp add: role_exclusion_remove Let_def split: option.splits)
next
  case LWS_CALLBACK_OTHER
  then show ?thesis using assms by simp
qed

lemma role_exclusion_run:
  "role_exclusion (clients_head s) \<Longrightarrow> role_exclusion (clients_head (fst (run evs s)))"
proof (induction evs arbitrary: s)
  case Nil
  then show ?case by simp
next
  case (Cons e es)
  from Cons.prems have "role_exclusion (clients_head (fst (ws_callback (fst e) (snd e) s)))"
    by (rule role_exclusion_step)
  from Cons.IH [OF this] show ?case
    by (simp add: Let_def case_prod_beta)
qed

lemmas string_defs =
  cstr_def snprintf_def strcasecmp_eq_def strncmp_eq_def tolower_c_def
  MAX_NAME_LEN_def MAX_ROLE_LEN_def MAX_MSG_LEN_def HISTORY_LIMIT_def

lemmas handler_defs =
  on_username_def on_role_def on_get_history_def on_chat_def
  add_client_def can_admit_as_reader_def can_admit_as_writer_def
  active_writers_def active_readers_def count_roles_def collect_wsis_def
  send_to_client_def broadcast_text_def broadcast_counts_def
  db_insert_message_def server_start_def Let_def

lemma two_readers_coexist:
  "clients_head (fst (run two_readers (server_start tbl))) =
     [\<lparr>wsi = 2, username = ''Anonymous'', role = ''READER''\<rparr>,
      \<lparr>wsi = 1, username = ''Anonymous'', role = ''READER''\<rparr>]"
  by (simp add: two_readers_def handler_defs string_defs split: option.splits)

text \<open>
  Claim C1. In every state that a sequence of callback events reaches from the start of
  the server, at most one client of the list has the role Writer, and when some client
  has the role Writer no client has the role Reader. In the counts that
  \<open>count_roles\<close> reports: there is at most one writer, and a writer means no reader.
  Readers may coexist: after \<open>two_readers\<close> there are two of them.
\<close>

theorem role_mutual_exclusion:
  "role_exclusion (clients_head (fst (run evs (server_start tbl))))
   \<and> active_writers (clients_head (fst (run evs (server_start tbl)))) \<le> 1
   \<and> (0 < active_writers (clients_head (fst (run evs (server_start tbl))))
        \<longrightarrow> active_readers (clients_head (fst (run evs (server_start tbl)))) = 0)
   \<and> active_readers (clients_head (fst (run two_readers (server_start tbl)))) = 2"
proof -
  have "role_exclusion (clients_head (server_start tbl))"
    by (simp add: role_exclusion_def server_start_def)
  then have "role_exclusion (clients_head (fst (run evs (server_start tbl))))"
    by (rule role_exclusion_run)
  moreover have "active_readers (clients_head (fst (run two_readers (server_start tbl)))) = 2"
    by (simp add: two_readers_coexist active_readers_filter is_reader_def
          strcasecmp_eq_def tolower_c_def)
  ultimately show ?thesis
    by (simp add: role_exclusion_counts)
qed

lemma writer_and_guest_clients:
  "clients_head (fst (run writer_and_guest (server_start []))) =
     [\<lparr>wsi = 2, username = ''Anonymous'', role = ''NONE''\<rparr>,
      \<lparr>wsi = 1, username = ''Anonymous'', role = ''WRITER''\<rparr>]"
  by (simp add: writer_and_guest_def handler_defs string_defs split: option.splits)

theorem role_mutual_exclusion_witness:
  "(\<exists>c \<in> set (clients_head (fst (run writer_and_guest (server_start [])))). is_writer c)
   \<and> filter is_reader (clients_head (fst (run writer_and_guest (server_start [])))) = []
   \<and> 0 < active_writers (clients_head (fst (run writer_and_guest (server_start []))))
   \<and> active_readers (clients_head (fst (run writer_and_guest (server_start [])))) = 0"
proof -
  let ?cs = "clients_head (fst (run writer_and_guest (server_start [])))"
  have ex: "\<exists>c \<in> set ?cs. is_writer c"
    by (simp add: writer_and_guest_clients is_writer_def strcasecmp_eq_def tolower_c_def)
  then have pos: "0 < active_writers ?cs"
    by (simp add: active_writers_filter filter_empty_conv)
  from role_mutual_exclusion [of writer_and_guest "[]"]
  have "role_exclusion ?cs" and "0 < active_writers ?cs \<longrightarrow> active_readers ?cs = 0"
    by blast+
  with ex pos show ?thesis
    by (simp add: role_exclusion_def filter_empty_conv)
qed

lemma skip_blanks_dropWhile: "skip_blanks bs = dropWhile is_blank bs"
  by (induction bs) (simp_all add: is_blank_def)

lemma cstr_skip_blanks: "cstr (skip_blanks bs) = dropWhile is_blank (cstr bs)"
  by (induction bs) (auto simp: cstr_def is_blank_def)

lemma cstr_literals:
  "cstr ''username:'' = ''username:''"
  "cstr ''role:'' = ''role:''"
  "cstr ''get_history'' = ''get_history''"
  by (simp_all add: cstr_def)

lemma role_not_username:
  "strncmp_eq m ''role:'' 5 \<Longrightarrow> \<not> strncmp_eq m ''username:'' 9"
  by (cases "cstr m") (simp_all add: strncmp_eq_def cstr_literals)

lemma get_history_not_other:
  "strncmp_eq m ''get_history'' 11 \<Longrightarrow>
     \<not> strncmp_eq m ''username:'' 9 \<and> \<not> strncmp_eq m ''role:'' 5"
  by (cases "cstr m") (simp_all add: strncmp_eq_def cstr_literals)

lemma wants_writer_value:
  "wants_writer msg \<longleftrightarrow>
     map tolower_c (dropWhile is_blank (cstr (drop 5 msg))) = ''writer''"
  by (simp add: wants_writer_def cstr_skip_blanks strcasecmp_eq_def tolower_c_def)

lemma broadcast_text_map: "broadcast_text cs m = map (\<lambda>p. Write (wsi p) m) cs"
  by (simp add: broadcast_text_def collect_wsis_def comp_def)

lemma broadcast_counts_map:
  "broadcast_counts cs = map (\<lambda>p. Write (wsi p) (counts_line cs)) cs"
  by (simp add: broadcast_counts_def count_roles_def count_loop_filter counts_line_def
        broadcast_text_map)

lemma receive_role:
  assumes "find_client w (clients_head s) = Some c" and "strncmp_eq msg ''role:'' 5"
  shows "ws_callback w (LWS_CALLBACK_RECEIVE msg e) s = on_role w c msg s"
  using assms by (simp add: role_not_username)

lemma can_admit_as_writer_iff:
  "can_admit_as_writer cs \<longleftrightarrow> filter is_writer cs = [] \<and> filter is_reader cs = []"
  by (simp add: can_admit_as_writer_def active_writers_filter active_readers_filter)

lemma can_admit_as_reader_iff:
  "can_admit_as_reader cs \<longleftrightarrow> filter is_writer cs = []"
  by (simp add: can_admit_as_reader_def active_writers_filter)

lemma find_client_wsi: "find_client w cs = Some c \<Longrightarrow> wsi c = w"
  by (induction cs) (auto split: if_splits)

lemma find_client_in_set: "find_client w cs = Some c \<Longrightarrow> c \<in> set cs"
  by (induction cs) (auto split: if_splits)

lemma find_update_client:
  assumes "find_client w cs = Some c" and "\<And>p. wsi (f p) = wsi p"
  shows "find_client w (update_client w f cs) = Some (f c)"
  using assms by (induction cs) (auto split: if_splits)

lemma map_wsi_update_client:
  assumes "\<And>p. wsi (f p) = wsi p"
  shows "map wsi (update_client w f cs) = map wsi cs"
  using assms by (induction cs) auto

lemma on_role_result:
  assumes "find_client w (clients_head s) = Some c"
  shows "on_role w c msg s =
    (if wants_writer msg
     then (if can_admit_as_writer (clients_head s)
           then role_granted c ''WRITER'' ''writer'' ''Writer'' s
           else role_denied c ''A writer or readers are already inside.'' s)
     else (if can_admit_as_reader (clients_head s)
           then role_granted c ''READER'' ''reader'' ''Reader'' s
           else role_denied c ''A writer is already inside.'' s))"
  using find_client_wsi [OF assms]
  by (simp add: on_role_writer_granted on_role_writer_denied on_role_reader_granted
        on_role_reader_denied role_granted_def role_denied_def history_reply_def
        set_role_def broadcast_text_map broadcast_counts_map Let_def snprintf_def
        MAX_ROLE_LEN_def)

text \<open>
  Claim C2. A frame with the prefix \<open>role:\<close> from a registered client asks for the
  role Writer exactly when the text after the prefix, without its leading spaces and
  tabs, is \<open>WRITER\<close> in any mix of cases, and for the role Reader otherwise. A request
  for Writer is granted iff no client is a writer and no client is a reader; a request
  for Reader is granted iff no client is a writer.
\<close>

theorem admission_decision:
  assumes "find_client w (clients_head s) = Some c"
    and "strncmp_eq msg ''role:'' 5"
  shows "ws_callback w (LWS_CALLBACK_RECEIVE msg e) s =
    (if map tolower_c (dropWhile is_blank (cstr (drop 5 msg))) = ''writer''
     then (if filter is_writer (clients_head s) = [] \<and> filter is_reader (clients_head s) = []
           then role_granted c ''WRITER'' ''writer'' ''Writer'' s
           else role_denied c ''A writer or readers are already inside.'' s)
     else (if filter is_writer (clients_head s) = []
           then role_granted c ''READER'' ''reader'' ''Reader'' s
           else role_denied c ''A writer is already inside.'' s))"
  using assms
  by (simp only: receive_role on_role_result wants_writer_value
        can_admit_as_writer_iff can_admit_as_reader_iff)

lemma fmt_d_small: "fmt_d 0 = ''0''" "fmt_d (Suc 0) = ''1''" "fmt_d 2 = ''2''"
  by (simp_all add: fmt_d.simps)

lemma writer_and_guest_state:
  "fst (run writer_and_guest (server_start [])) =
     \<lparr>clients_head = [\<lparr>wsi = 2, username = ''Anonymous'', role = ''NONE''\<rparr>,
                      \<lparr>wsi = 1, username = ''Anonymous'', role = ''WRITER''\<rparr>],
      db = Some []\<rparr>"
  by (simp add: writer_and_guest_def handler_defs string_defs split: option.splits)

theorem admission_decision_witness:
  "find_client 2 (clients_head (fst (run writer_and_guest (server_start []))))
     = Some \<lparr>wsi = 2, username = ''Anonymous'', role = ''NONE''\<rparr>
   \<and> strncmp_eq (''role: '' @ [CHR 0x09] @ ''WriTer'') ''role:'' 5
   \<and> ws_callback 2 (LWS_CALLBACK_RECEIVE (''role: '' @ [CHR 0x09] @ ''WriTer'') None)
        (fst (run writer_and_guest (server_start [])))
     = (fst (run writer_and_guest (server_start [])),
        [Write 2 ''ROLE_DENIED:A writer or readers are already inside.'',
         Write 2 ''SYSTEM_COUNTS:0:1'', Write 1 ''SYSTEM_COUNTS:0:1''])"
proof -
  let ?s = "fst (run writer_and_guest (server_start []))"
  let ?c = "\<lparr>wsi = 2, username = ''Anonymous'', role = ''NONE''\<rparr>"
  have h1: "find_client 2 (clients_head ?s) = Some ?c"
    by (simp add: writer_and_guest_state)
  have h2: "strncmp_eq (''role: '' @ [CHR 0x09] @ ''WriTer'') ''role:'' 5"
    by (simp add: strncmp_eq_def cstr_def)
  show ?thesis
    using h1 h2 admission_decision [OF h1 h2, of None]
    by (simp add: writer_and_guest_state role_denied_def counts_line_def is_writer_def
          is_reader_def is_blank_def fmt_d_small string_defs)
qed

lemma join_lines_Cons:
  "join_lines (l # ls) = (if ls = [] then l else l @ [CHR 0x0A] @ join_lines ls)"
  by (cases ls) simp_all

lemma strcat_rows_join:
  "n \<le> length rs \<Longrightarrow> strcat_rows rs n out = out @ join_lines (rev (take n rs))"
proof (induction n arbitrary: out)
  case 0
  then show ?case by simp
next
  case (Suc i)
  then have "i < length rs" by simp
  then have "rev (take (Suc i) rs) = rs ! i # rev (take i rs)"
    by (simp add: take_Suc_conv_app_nth)
  moreover have "rev (take i rs) = [] \<longleftrightarrow> i = 0"
    using \<open>i < length rs\<close> by auto
  ultimately show ?case
    using Suc by (simp add: join_lines_Cons)
qed

lemma snapshot_open:
  "db_get_history_snapshot limit (Some tbl) =
     Some (join_lines (rev (map format_row (select_recent limit tbl))))"
  by (simp add: db_get_history_snapshot_def Let_def strcat_rows_join)

lemma select_recent_rev:
  "0 \<le> limit \<Longrightarrow> rev (select_recent limit tbl) = last_rows (nat limit) tbl"
  by (simp add: select_recent_def last_rows_def rev_take)

lemma snapshot_last_rows:
  "0 \<le> limit \<Longrightarrow>
     db_get_history_snapshot limit (Some tbl) =
       Some (join_lines (map format_row (last_rows (nat limit) tbl)))"
  by (simp add: snapshot_open rev_map select_recent_rev)

text \<open>
  Claim C7. On an open database the snapshot with a limit that is not negative is the
  text of the \<open>limit\<close> rows appended last (of all rows when there are fewer), each as
  \<open>username: message\<close>, oldest first and joined by newlines; it is the reversal of the
  newest-first rows that the query returns. An empty table gives the empty text. A
  closed database gives no text (NULL) and no error is reported: the reply to
  \<open>get_history\<close> is then the empty text.
\<close>

theorem snapshot_contents:
  "(0 \<le> limit \<longrightarrow>
      db_get_history_snapshot limit (Some tbl) =
        Some (join_lines (map (\<lambda>(u, m). u @ '': '' @ m) (drop (length tbl - nat limit) tbl))))
   \<and> db_get_history_snapshot limit (Some tbl) =
        Some (join_lines (rev (map format_row (select_recent limit tbl))))
   \<and> db_get_history_snapshot limit (Some []) = Some []
   \<and> db_get_history_snapshot limit None = None
   \<and> on_get_history c \<lparr>clients_head = cs, db = None\<rparr>
        = (\<lparr>clients_head = cs, db = None\<rparr>, [Write (wsi c) []])
   \<and> on_get_history c \<lparr>clients_head = cs, db = Some []\<rparr>
        = (\<lparr>clients_head = cs, db = Some []\<rparr>, [Write (wsi c) []])"
proof -
  have fmt: "format_row = (\<lambda>(u, m). u @ '': '' @ m)"
    by (auto simp: format_row_def)
  have closed: "db_get_history_snapshot limit None = None" for limit
    by (simp add: db_get_history_snapshot_def)
  have empty: "db_get_history_snapshot limit (Some []) = Some []" for limit
    by (simp add: snapshot_open select_recent_def)
  have last: "0 \<le> limit \<longrightarrow>
      db_get_history_snapshot limit (Some tbl) =
        Some (join_lines (map (\<lambda>(u, m). u @ '': '' @ m) (drop (length tbl - nat limit) tbl)))"
    using snapshot_last_rows [of limit tbl] by (simp add: last_rows_def fmt)
  have reply_closed: "on_get_history c \<lparr>clients_head = cs, db = None\<rparr>
        = (\<lparr>clients_head = cs, db = None\<rparr>, [Write (wsi c) []])"
    by (simp add: on_get_history_def closed send_to_client_def)
  have reply_empty: "on_get_history c \<lparr>clients_head = cs, db = Some []\<rparr>
        = (\<lparr>clients_head = cs, db = Some []\<rparr>, [Write (wsi c) []])"
    by (simp add: on_get_history_def empty send_to_client_def)
  from last snapshot_open [of limit tbl] empty closed reply_closed reply_empty
  show ?thesis by blast
qed

theorem snapshot_contents_witness:
  "(0::int) \<le> 2
   \<and> db_get_history_snapshot 2 (Some [(''a'', ''1''), (''b'', ''2''), (''c'', ''3'')])
       = Some (''b: 2'' @ [CHR 0x0A] @ ''c: 3'')"
  using snapshot_contents [of 2 "[(''a'', ''1''), (''b'', ''2''), (''c'', ''3'')]"]
  by simp

lemma list_all_update_client:
  "list_all P cs \<Longrightarrow> (\<And>p. P p \<Longrightarrow> P (f p)) \<Longrightarrow> list_all P (update_client w f cs)"
  by (induction cs) auto

lemma list_all_remove_client: "list_all P cs \<Longrightarrow> list_all P (remove_client w cs)"
  by (induction cs) auto

lemma well_started_on_role:
  assumes "well_started s" and "find_client w (clients_head s) = Some c"
  shows "well_started (fst (on_role w c msg s))"
  using assms
  by (simp add: on_role_result role_granted_def role_denied_def well_started_def
        set_role_def Let_def list_all_update_client)

lemma well_started_on_username:
  assumes "well_started s"
  shows "well_started (fst (on_username w msg s))"
  using assms
  by (simp add: on_username_def well_started_def Let_def list_all_update_client
        snprintf_def MAX_NAME_LEN_def)

lemma well_started_on_chat:
  assumes "well_started s"
  shows "well_started (fst (on_chat c msg e s))"
  using assms
  by (auto simp: on_chat_def well_started_def Let_def db_insert_message_def
        split: option.splits)

lemma well_started_on_get_history:
  assumes "well_started s"
  shows "well_started (fst (on_get_history c s))"
  using assms by (simp add: on_get_history_def split: option.splits)

lemma well_started_step:
  assumes "well_started s"
  shows "well_started (fst (ws_callback w r s))"
proof (cases r)
  case LWS_CALLBACK_ESTABLISHED
  then show ?thesis
    using assms
    by (simp add: well_started_def add_client_def snprintf_def MAX_NAME_LEN_def)
next
  case (LWS_CALLBACK_RECEIVE msg e)
  then show ?thesis
    using assms
    by (simp add: well_started_on_role well_started_on_username well_started_on_chat
          well_started_on_get_history split: option.splits)
next
  case LWS_CALLBACK_CLOSED
  then show ?thesis
    using assms
    by (simp add: well_started_def list_all_remove_client Let_def split: option.splits)
next
  case LWS_CALLBACK_OTHER
  then show ?thesis using assms by simp
qed

lemma well_started_run: "well_started s \<Longrightarrow> well_started (fst (run evs s))"
proof (induction evs arbitrary: s)
  case Nil
  then show ?case by simp
next
  case (Cons e es)
  from Cons.prems have "well_started (fst (ws_callback (fst e) (snd e) s))"
    by (rule well_started_step)
  from Cons.IH [OF this] show ?case
    by (simp add: Let_def case_prod_beta)
qed

lemma well_started_reachable: "well_started (fst (run evs (server_start tbl)))"
  by (rule well_started_run) (simp add: well_started_def server_start_def)

lemma snprintf_fits: "length s < n \<Longrightarrow> snprintf n s = s"
  by (simp add: snprintf_def)

lemma granted_outputs:
  assumes "well_started s" and "find_client w (clients_head s) = Some c"
    and "db s = Some tbl"
  shows "role_granted c ''WRITER'' ''writer'' ''Writer'' s =
           (s\<lparr>clients_head := set_role w ''WRITER'' (clients_head s)\<rparr>,
            grant_outputs c ''writer'' ''Writer'' tbl (set_role w ''WRITER'' (clients_head s)))"
    and "role_granted c ''READER'' ''reader'' ''Reader'' s =
           (s\<lparr>clients_head := set_role w ''READER'' (clients_head s)\<rparr>,
            grant_outputs c ''reader'' ''Reader'' tbl (set_role w ''READER'' (clients_head s)))"
proof -
  from assms(1) find_client_in_set [OF assms(2)]
  have fits: "length (username c) < 64"
    by (auto simp: well_started_def list_all_iff MAX_NAME_LEN_def)
  have snap: "history_reply c (db s)
                = [Write (wsi c) (join_lines (map format_row (last_rows 500 tbl)))]"
    using snapshot_last_rows [of HISTORY_LIMIT tbl] assms(3)
    by (simp add: history_reply_def HISTORY_LIMIT_def)
  show "role_granted c ''WRITER'' ''writer'' ''Writer'' s =
           (s\<lparr>clients_head := set_role w ''WRITER'' (clients_head s)\<rparr>,
            grant_outputs c ''writer'' ''Writer'' tbl (set_role w ''WRITER'' (clients_head s)))"
    using find_client_wsi [OF assms(2)]
    using fits by (simp add: role_granted_def grant_outputs_def Let_def snap snprintf_fits)
  show "role_granted c ''READER'' ''reader'' ''Reader'' s =
           (s\<lparr>clients_head := set_role w ''READER'' (clients_head s)\<rparr>,
            grant_outputs c ''reader'' ''Reader'' tbl (set_role w ''READER'' (clients_head s)))"
    using find_client_wsi [OF assms(2)]
    using fits by (simp add: role_granted_def grant_outputs_def Let_def snap snprintf_fits)
qed

lemma find_set_role:
  assumes "find_client w cs = Some c"
  shows "find_client w (set_role w r cs) = Some (c\<lparr>role := r\<rparr>)"
  unfolding set_role_def using assms by (rule find_update_client) simp

lemma handles_set_role: "map wsi (set_role w r cs) = map wsi cs"
  unfolding set_role_def by (rule map_wsi_update_client) simp

text \<open>
  Claim C3. In a state that a run of the server reaches, a granted \<open>role:\<close> request
  sets the role of the requesting client and emits, in this order: the snapshot of the
  500 most recent rows to the requester alone, then \<open>ROLE_CONFIRMED:writer\<close> or
  \<open>ROLE_CONFIRMED:reader\<close> to the requester alone, then the join notice to every client
  of the list, then the counts of the updated list to every client of the list. The
  requester is among the clients that receive the two broadcasts.
\<close>

theorem grant_sequence:
  assumes "s = fst (run evs (server_start tbl0))"
    and "find_client w (clients_head s) = Some c"
    and "strncmp_eq msg ''role:'' 5"
    and "if wants_writer msg then can_admit_as_writer (clients_head s)
         else can_admit_as_reader (clients_head s)"
  shows "\<exists>tbl r tag title.
           (r, tag, title) = (if wants_writer msg then (''WRITER'', ''writer'', ''Writer'')
                              else (''READER'', ''reader'', ''Reader''))
         \<and> db s = Some tbl
         \<and> ws_callback w (LWS_CALLBACK_RECEIVE msg e) s =
             (s\<lparr>clients_head := set_role w r (clients_head s)\<rparr>,
              grant_outputs c tag title tbl (set_role w r (clients_head s)))
         \<and> find_client w (set_role w r (clients_head s)) = Some (c\<lparr>role := r\<rparr>)
         \<and> wsi c = w
         \<and> w \<in> set (map wsi (set_role w r (clients_head s)))"
proof -
  have ws: "well_started s"
    unfolding assms(1) by (rule well_started_reachable)
  then obtain tbl where tbl: "db s = Some tbl"
    by (auto simp: well_started_def)
  have mem: "w \<in> set (map wsi (set_role w r (clients_head s)))" for r
    using find_client_in_set [OF assms(2)] find_client_wsi [OF assms(2)]
    by (auto simp: handles_set_role)
  show ?thesis
  proof (cases "wants_writer msg")
    case True
    with assms(4) have "can_admit_as_writer (clients_head s)" by simp
    with True have "on_role w c msg s =
        (s\<lparr>clients_head := set_role w ''WRITER'' (clients_head s)\<rparr>,
         grant_outputs c ''writer'' ''Writer'' tbl (set_role w ''WRITER'' (clients_head s)))"
      by (simp add: on_role_result [OF assms(2)] granted_outputs [OF ws assms(2) tbl])
    then have "ws_callback w (LWS_CALLBACK_RECEIVE msg e) s =
        (s\<lparr>clients_head := set_role w ''WRITER'' (clients_head s)\<rparr>,
         grant_outputs c ''writer'' ''Writer'' tbl (set_role w ''WRITER'' (clients_head s)))"
      by (simp only: receive_role [OF assms(2,3)])
    with True tbl find_set_role [OF assms(2)] find_client_wsi [OF assms(2)] mem
    show ?thesis by simp
  next
    case False
    with assms(4) have "can_admit_as_reader (clients_head s)" by simp
    with False have "on_role w c msg s =
        (s\<lparr>clients_head := set_role w ''READER'' (clients_head s)\<rparr>,
         grant_outputs c ''reader'' ''Reader'' tbl (set_role w ''READER'' (clients_head s)))"
      by (simp add: on_role_result [OF assms(2)] granted_outputs [OF ws assms(2) tbl])
    then have "ws_callback w (LWS_CALLBACK_RECEIVE msg e) s =
        (s\<lparr>clients_head := set_role w ''READER'' (clients_head s)\<rparr>,
         grant_outputs c ''reader'' ''Reader'' tbl (set_role w ''READER'' (clients_head s)))"
      by (simp only: receive_role [OF assms(2,3)])
    with False tbl find_set_role [OF assms(2)] find_client_wsi [OF assms(2)] mem
    show ?thesis by simp
  qed
qed

lemma lone_guest_state:
  "fst (run lone_guest (server_start [])) =
     \<lparr>clients_head = [\<lparr>wsi = 1, username = ''Anonymous'', role = ''NONE''\<rparr>], db = Some []\<rparr>"
  by (simp add: lone_guest_def handler_defs string_defs)

theorem grant_sequence_witness:
  "find_client 1 (clients_head (fst (run lone_guest (server_start []))))
     = Some \<lparr>wsi = 1, username = ''Anonymous'', role = ''NONE''\<rparr>
   \<and> strncmp_eq ''role:writer'' ''role:'' 5
   \<and> wants_writer ''role:writer''
   \<and> can_admit_as_writer (clients_head (fst (run lone_guest (server_start []))))
   \<and> ws_callback 1 (LWS_CALLBACK_RECEIVE ''role:writer'' None)
        (fst (run lone_guest (server_start [])))
     = (\<lparr>clients_head = [\<lparr>wsi = 1, username = ''Anonymous'', role = ''WRITER''\<rparr>],
         db = Some []\<rparr>,
        [Write 1 [], Write 1 ''ROLE_CONFIRMED:writer'',
         Write 1 ''System: Anonymous joined as Writer'', Write 1 ''SYSTEM_COUNTS:0:1''])"
proof -
  let ?s = "fst (run lone_guest (server_start []))"
  let ?c = "\<lparr>wsi = 1, username = ''Anonymous'', role = ''NONE''\<rparr>"
  have h1: "find_client 1 (clients_head ?s) = Some ?c"
    by (simp add: lone_guest_state)
  have h2: "strncmp_eq ''role:writer'' ''role:'' 5"
    by (simp add: strncmp_eq_def cstr_def)
  have h3: "wants_writer ''role:writer''"
    by (simp add: wants_writer_def string_defs)
  have h4: "can_admit_as_writer (clients_head ?s)"
    by (simp add: lone_guest_state can_admit_as_writer_iff is_writer_def is_reader_def
          string_defs)
  from h3 h4 have h5: "if wants_writer ''role:writer'' then can_admit_as_writer (clients_head ?s)
      else can_admit_as_reader (clients_head ?s)"
    by simp
  from grant_sequence [OF refl h1 h2 h5, of None] h3
  have "ws_callback 1 (LWS_CALLBACK_RECEIVE ''role:writer'' None) ?s =
          (?s\<lparr>clients_head := set_role 1 ''WRITER'' (clients_head ?s)\<rparr>,
           grant_outputs ?c ''writer'' ''Writer'' (the (db ?s))
             (set_role 1 ''WRITER'' (clients_head ?s)))"
    by auto
  then have "ws_callback 1 (LWS_CALLBACK_RECEIVE ''role:writer'' None) ?s
     = (\<lparr>clients_head = [\<lparr>wsi = 1, username = ''Anonymous'', role = ''WRITER''\<rparr>],
         db = Some []\<rparr>,
        [Write 1 [], Write 1 ''ROLE_CONFIRMED:writer'',
         Write 1 ''System: Anonymous joined as Writer'', Write 1 ''SYSTEM_COUNTS:0:1''])"
    by (simp add: lone_guest_state set_role_def grant_outputs_def last_rows_def
          counts_line_def is_writer_def is_reader_def fmt_d_small string_defs)
  with h1 h2 h3 h4 show ?thesis by blast
qed

text \<open>
  Claim C4, as stated: a denied \<open>role:\<close> request sends the one \<open>ROLE_DENIED\<close>
  message and nothing to any other client. It fails: the counts are broadcast after a
  denial too. Client 1 is the writer, client 2 asks for the role Writer and is denied,
  and client 1 is sent \<open>SYSTEM_COUNTS:0:1\<close>.
\<close>

theorem denial_silent_counterexample:
  "ws_callback 2 (LWS_CALLBACK_RECEIVE ''role:writer'' None)
        (fst (run writer_and_guest (server_start [])))
     = (fst (run writer_and_guest (server_start [])),
        [Write 2 ''ROLE_DENIED:A writer or readers are already inside.'',
         Write 2 ''SYSTEM_COUNTS:0:1'', Write 1 ''SYSTEM_COUNTS:0:1''])
   \<and> snd (ws_callback 2 (LWS_CALLBACK_RECEIVE ''role:writer'' None)
        (fst (run writer_and_guest (server_start []))))
     \<noteq> [Write 2 ''ROLE_DENIED:A writer or readers are already inside.'']
   \<and> Write 1 ''SYSTEM_COUNTS:0:1''
       \<in> set (snd (ws_callback 2 (LWS_CALLBACK_RECEIVE ''role:writer'' None)
                     (fst (run writer_and_guest (server_start [])))))"
  unfolding writer_and_guest_state
  by (simp add: handler_defs string_defs fmt_d_small)

text \<open>
  Claim C4, amended. A denied \<open>role:\<close> request leaves the whole state as it was (the
  role of the requester, the other clients, the table). It sends exactly one
  \<open>ROLE_DENIED\<close> message, to the requester, naming the conflict; after it the only
  output is the broadcast of the unchanged counts to every client of the list.
\<close>

theorem denial_keeps_state:
  assumes "find_client w (clients_head s) = Some c"
    and "strncmp_eq msg ''role:'' 5"
    and "if wants_writer msg then \<not> can_admit_as_writer (clients_head s)
         else \<not> can_admit_as_reader (clients_head s)"
  shows "ws_callback w (LWS_CALLBACK_RECEIVE msg e) s =
    (s, Write w (''ROLE_DENIED:'' @
                   (if wants_writer msg then ''A writer or readers are already inside.''
                    else ''A writer is already inside.''))
        # map (\<lambda>p. Write (wsi p) (counts_line (clients_head s))) (clients_head s))"
proof -
  have "ws_callback w (LWS_CALLBACK_RECEIVE msg e) s = on_role w c msg s"
    by (rule receive_role [OF assms(1,2)])
  also have "\<dots> = (s, Write w (''ROLE_DENIED:'' @
                   (if wants_writer msg then ''A writer or readers are already inside.''
                    else ''A writer is already inside.''))
        # map (\<lambda>p. Write (wsi p) (counts_line (clients_head s))) (clients_head s))"
    using assms(3) find_client_wsi [OF assms(1)]
    by (simp add: on_role_result [OF assms(1)] role_denied_def split: if_splits)
  finally show ?thesis .
qed

theorem denial_keeps_state_witness:
  "find_client 2 (clients_head (fst (run writer_and_guest (server_start []))))
     = Some \<lparr>wsi = 2, username = ''Anonymous'', role = ''NONE''\<rparr>
   \<and> strncmp_eq ''role:reader'' ''role:'' 5
   \<and> \<not> wants_writer ''role:reader''
   \<and> \<not> can_admit_as_reader (clients_head (fst (run writer_and_guest (server_start []))))
   \<and> ws_callback 2 (LWS_CALLBACK_RECEIVE ''role:reader'' None)
        (fst (run writer_and_guest (server_start [])))
     = (fst (run writer_and_guest (server_start [])),
        [Write 2 ''ROLE_DENIED:A writer is already inside.'',
         Write 2 ''SYSTEM_COUNTS:0:1'', Write 1 ''SYSTEM_COUNTS:0:1''])"
proof -
  let ?s = "fst (run writer_and_guest (server_start []))"
  let ?c = "\<lparr>wsi = 2, username = ''Anonymous'', role = ''NONE''\<rparr>"
  have h1: "find_client 2 (clients_head ?s) = Some ?c"
    by (simp add: writer_and_guest_state)
  have h2: "strncmp_eq ''role:reader'' ''role:'' 5"
    by (simp add: strncmp_eq_def cstr_def)
  have h3: "\<not> wants_writer ''role:reader''"
    by (simp add: wants_writer_def string_defs)
  have h4: "\<not> can_admit_as_reader (clients_head ?s)"
    by (simp add: writer_and_guest_state can_admit_as_reader_iff is_writer_def string_defs)
  from h3 h4 have h5: "if wants_writer ''role:reader''
      then \<not> can_admit_as_writer (clients_head ?s)
      else \<not> can_admit_as_reader (clients_head ?s)"
    by simp
  from denial_keeps_state [OF h1 h2 h5, of None] h3
  have "ws_callback 2 (LWS_CALLBACK_RECEIVE ''role:reader'' None) ?s
     = (?s, [Write 2 ''ROLE_DENIED:A writer is already inside.'',
         Write 2 ''SYSTEM_COUNTS:0:1'', Write 1 ''SYSTEM_COUNTS:0:1''])"
    by (simp add: writer_and_guest_state counts_line_def is_writer_def is_reader_def
          fmt_d_small string_defs)
  with h1 h2 h3 h4 show ?thesis by blast
qed

text \<open>
  Claim C5. A frame that matches none of the prefixes \<open>username:\<close>, \<open>role:\<close> and
  \<open>get_history\<close>, from a registered client whose role is not Writer, changes nothing
  (no row is added to the table) and emits exactly one output: the rejection notice,
  written to the sender. No client is sent the payload or the counts.
\<close>

theorem nonwriter_chat_rejected:
  assumes "find_client w (clients_head s) = Some c"
    and "\<not> strcasecmp_eq (role c) ''WRITER''"
    and "\<not> strncmp_eq msg ''username:'' 9"
    and "\<not> strncmp_eq msg ''role:'' 5"
    and "\<not> strncmp_eq msg ''get_history'' 11"
  shows "ws_callback w (LWS_CALLBACK_RECEIVE msg e) s = (s, [Write w rejection_notice])"
  using assms find_client_wsi [OF assms(1)]
  by (simp add: on_chat_def send_to_client_def snprintf_fits rejection_notice_def)

theorem nonwriter_chat_rejected_witness:
  "find_client 2 (clients_head (fst (run writer_and_guest (server_start []))))
     = Some \<lparr>wsi = 2, username = ''Anonymous'', role = ''NONE''\<rparr>
   \<and> \<not> strcasecmp_eq ''NONE'' ''WRITER''
   \<and> \<not> strncmp_eq ''hello'' ''username:'' 9
   \<and> \<not> strncmp_eq ''hello'' ''role:'' 5
   \<and> \<not> strncmp_eq ''hello'' ''get_history'' 11
   \<and> ws_callback 2 (LWS_CALLBACK_RECEIVE ''hello'' None)
        (fst (run writer_and_guest (server_start [])))
     = (fst (run writer_and_guest (server_start [])),
        [Write 2 (''System: You are a READER '' @ [CHR 0xE2, CHR 0x80, CHR 0x94]
                    @ '' you cannot send messages.'')])"
proof -
  let ?s = "fst (run writer_and_guest (server_start []))"
  let ?c = "\<lparr>wsi = 2, username = ''Anonymous'', role = ''NONE''\<rparr>"
  have h1: "find_client 2 (clients_head ?s) = Some ?c"
    by (simp add: writer_and_guest_state)
  have h2: "\<not> strcasecmp_eq (role ?c) ''WRITER''"
    by (simp add: string_defs)
  have h3: "\<not> strncmp_eq ''hello'' ''username:'' 9"
    and h4: "\<not> strncmp_eq ''hello'' ''role:'' 5"
    and h5: "\<not> strncmp_eq ''hello'' ''get_history'' 11"
    by (simp_all add: strncmp_eq_def cstr_def)
  from nonwriter_chat_rejected [OF h1 h2 h3 h4 h5, of None] h1 h2 h3 h4 h5
  show ?thesis by (simp add: rejection_notice_def)
qed

lemma receive_chat:
  assumes "find_client w (clients_head s) = Some c"
    and "\<not> strncmp_eq msg ''username:'' 9"
    and "\<not> strncmp_eq msg ''role:'' 5"
    and "\<not> strncmp_eq msg ''get_history'' 11"
  shows "ws_callback w (LWS_CALLBACK_RECEIVE msg e) s = on_chat c msg e s"
  using assms by simp

lemma on_chat_writer:
  assumes "strcasecmp_eq (role c) ''WRITER''"
  shows "db s = Some tbl \<Longrightarrow>
           on_chat c msg None s =
             (s\<lparr>db := Some (tbl @ [(username c, cstr msg)])\<rparr>,
              map (\<lambda>p. Write (wsi p) (chat_line c msg)) (clients_head s))"
    and "db s = Some tbl \<Longrightarrow>
           on_chat c msg (Some err) s =
             (s, Stderr (''Failed to insert message: '' @ err @ [CHR 0x0A]) # insert_warning
                 # map (\<lambda>p. Write (wsi p) (chat_line c msg)) (clients_head s))"
    and "db s = None \<Longrightarrow>
           on_chat c msg e s =
             (s, insert_warning
                 # map (\<lambda>p. Write (wsi p) (chat_line c msg)) (clients_head s))"
proof -
  have same: "d = db s \<Longrightarrow> s\<lparr>db := d\<rparr> = s" for d
    by simp
  show "db s = Some tbl \<Longrightarrow>
           on_chat c msg None s =
             (s\<lparr>db := Some (tbl @ [(username c, cstr msg)])\<rparr>,
              map (\<lambda>p. Write (wsi p) (chat_line c msg)) (clients_head s))"
    using assms
    by (simp add: on_chat_def db_insert_message_def chat_line_def broadcast_text_map
          snprintf_def MAX_MSG_LEN_def Let_def)
  show "db s = Some tbl \<Longrightarrow>
           on_chat c msg (Some err) s =
             (s, Stderr (''Failed to insert message: '' @ err @ [CHR 0x0A]) # insert_warning
                 # map (\<lambda>p. Write (wsi p) (chat_line c msg)) (clients_head s))"
    using assms
    by (simp add: on_chat_def db_insert_message_def chat_line_def broadcast_text_map
          snprintf_def MAX_MSG_LEN_def Let_def insert_warning_def same)
  show "db s = None \<Longrightarrow>
           on_chat c msg e s =
             (s, insert_warning
                 # map (\<lambda>p. Write (wsi p) (chat_line c msg)) (clients_head s))"
    using assms
    by (simp add: on_chat_def db_insert_message_def chat_line_def broadcast_text_map
          snprintf_def MAX_MSG_LEN_def Let_def insert_warning_def same)
qed

lemma nameless_writer_state:
  "fst (run nameless_writer (server_start [])) =
     \<lparr>clients_head = [\<lparr>wsi = 1, username = [], role = ''WRITER''\<rparr>], db = Some []\<rparr>"
  by (simp add: nameless_writer_def handler_defs string_defs)

text \<open>
  Claim C6, as stated: the line broadcast for a chat payload of a writer is
  \<open>username: message\<close>. It fails for a writer whose name is empty: client 1 sets the
  empty name with the frame \<open>username:\<close>, becomes the writer and sends \<open>hi\<close>; the line
  broadcast is \<open>Anon: hi\<close>, while its name and the payload give \<open>: hi\<close>.
\<close>

theorem chat_line_counterexample:
  "find_client 1 (clients_head (fst (run nameless_writer (server_start []))))
     = Some \<lparr>wsi = 1, username = [], role = ''WRITER''\<rparr>
   \<and> snd (ws_callback 1 (LWS_CALLBACK_RECEIVE ''hi'' None)
            (fst (run nameless_writer (server_start []))))
     = [Write 1 ''Anon: hi'']
   \<and> snd (ws_callback 1 (LWS_CALLBACK_RECEIVE ''hi'' None)
            (fst (run nameless_writer (server_start []))))
     \<noteq> [Write 1 ([] @ '': '' @ ''hi'')]"
  unfolding nameless_writer_state
  by (simp add: handler_defs string_defs)

text \<open>
  Claim C6, amended. A chat payload from a registered client with the role Writer is
  broadcast to every client of the list as the line \<open>name: message\<close>, cut to 4095
  bytes, where the name is the display name of the sender, or \<open>Anon\<close> when the display
  name is empty. This happens when the insert succeeds (a row is added and nothing is
  logged) and when it fails: on a failed step the error and a warning are logged, on a
  closed database the warning is logged, the state is unchanged (no client is removed)
  and the same broadcast follows.
\<close>

theorem chat_broadcast_despite_insert:
  assumes "find_client w (clients_head s) = Some c"
    and "strcasecmp_eq (role c) ''WRITER''"
    and "\<not> strncmp_eq msg ''username:'' 9"
    and "\<not> strncmp_eq msg ''role:'' 5"
    and "\<not> strncmp_eq msg ''get_history'' 11"
  shows "ws_callback w (LWS_CALLBACK_RECEIVE msg e) s =
    (case (db s, e) of
       (Some tbl, None) \<Rightarrow>
         (s\<lparr>db := Some (tbl @ [(username c, cstr msg)])\<rparr>,
          map (\<lambda>p. Write (wsi p) (chat_line c msg)) (clients_head s))
     | (Some tbl, Some err) \<Rightarrow>
         (s, Stderr (''Failed to insert message: '' @ err @ [CHR 0x0A]) # insert_warning
             # map (\<lambda>p. Write (wsi p) (chat_line c msg)) (clients_head s))
     | (None, _) \<Rightarrow>
         (s, insert_warning
             # map (\<lambda>p. Write (wsi p) (chat_line c msg)) (clients_head s)))"
proof -
  have "ws_callback w (LWS_CALLBACK_RECEIVE msg e) s = on_chat c msg e s"
    by (rule receive_chat [OF assms(1,3,4,5)])
  then show ?thesis
    by (simp add: on_chat_writer [OF assms(2)] split: option.splits)
qed

theorem chat_broadcast_despite_insert_witness:
  "find_client 1 (clients_head (fst (run writer_and_guest (server_start []))))
     = Some \<lparr>wsi = 1, username = ''Anonymous'', role = ''WRITER''\<rparr>
   \<and> strcasecmp_eq ''WRITER'' ''WRITER''
   \<and> \<not> strncmp_eq ''hi'' ''username:'' 9
   \<and> \<not> strncmp_eq ''hi'' ''role:'' 5
   \<and> \<not> strncmp_eq ''hi'' ''get_history'' 11
   \<and> ws_callback 1 (LWS_CALLBACK_RECEIVE ''hi'' (Some ''disk full''))
        (fst (run writer_and_guest (server_start [])))
     = (fst (run writer_and_guest (server_start [])),
        [Stderr (''Failed to insert message: disk full'' @ [CHR 0x0A]),
         Stderr (''Warning: failed to insert message into DB'' @ [CHR 0x0A]),
         Write 2 ''Anonymous: hi'', Write 1 ''Anonymous: hi''])"
proof -
  let ?s = "fst (run writer_and_guest (server_start []))"
  let ?c = "\<lparr>wsi = 1, username = ''Anonymous'', role = ''WRITER''\<rparr>"
  have h1: "find_client 1 (clients_head ?s) = Some ?c"
    by (simp add: writer_and_guest_state)
  have h2: "strcasecmp_eq (role ?c) ''WRITER''"
    by (simp add: string_defs)
  have h3: "\<not> strncmp_eq ''hi'' ''username:'' 9"
    and h4: "\<not> strncmp_eq ''hi'' ''role:'' 5"
    and h5: "\<not> strncmp_eq ''hi'' ''get_history'' 11"
    by (simp_all add: strncmp_eq_def cstr_def)
  from chat_broadcast_despite_insert [OF h1 h2 h3 h4 h5, of "Some ''disk full''"]
    h1 h2 h3 h4 h5
  show ?thesis
    by (simp add: writer_and_guest_state chat_line_def insert_warning_def cstr_def)
qed

lemma receive_get_history:
  assumes "find_client w (clients_head s) = Some c"
    and "strncmp_eq msg ''get_history'' 11"
  shows "ws_callback w (LWS_CALLBACK_RECEIVE msg e) s = on_get_history c s"
  using assms get_history_not_other [OF assms(2)] by simp

lemma join_lines_snoc:
  "join_lines (ls @ [l]) = (if ls = [] then l else join_lines ls @ [CHR 0x0A] @ l)"
  by (induction ls rule: join_lines.induct) simp_all

lemma last_rows_snoc: "last_rows (Suc n) (tbl @ [r]) = last_rows n tbl @ [r]"
  by (simp add: last_rows_def)

lemma snapshot_after_insert:
  "db_get_history_snapshot HISTORY_LIMIT (Some (tbl @ [(u, m)])) =
     Some ((if last_rows 499 tbl = [] then []
            else join_lines (map format_row (last_rows 499 tbl)) @ [CHR 0x0A])
           @ u @ '': '' @ m)"
proof -
  have "last_rows 500 (tbl @ [(u, m)]) = last_rows 499 tbl @ [(u, m)]"
    using last_rows_snoc [of 499 tbl "(u, m)"] by simp
  then show ?thesis
    using snapshot_last_rows [of HISTORY_LIMIT "tbl @ [(u, m)]"]
    by (simp add: HISTORY_LIMIT_def join_lines_snoc format_row_def)
qed

text \<open>
  Claim C8, as stated: after a writer has sent a chat payload, the snapshot that
  \<open>get_history\<close> returns is not empty and ends with that payload. It fails when the
  insert fails, which the chat path tolerates: the writer 1 sends \<open>hi\<close>, the step of the
  insert fails, the line is broadcast all the same, and the snapshot that client 2 then
  gets is empty.
\<close>

theorem round_trip_counterexample:
  "snd (ws_callback 1 (LWS_CALLBACK_RECEIVE ''hi'' (Some ''disk full''))
          (fst (run writer_and_guest (server_start []))))
     = [Stderr (''Failed to insert message: disk full'' @ [CHR 0x0A]),
        Stderr (''Warning: failed to insert message into DB'' @ [CHR 0x0A]),
        Write 2 ''Anonymous: hi'', Write 1 ''Anonymous: hi'']
   \<and> snd (ws_callback 2 (LWS_CALLBACK_RECEIVE ''get_history'' None)
          (fst (ws_callback 1 (LWS_CALLBACK_RECEIVE ''hi'' (Some ''disk full''))
                 (fst (run writer_and_guest (server_start []))))))
     = [Write 2 []]"
  unfolding writer_and_guest_state
  by (simp add: handler_defs string_defs db_get_history_snapshot_def select_recent_def)

text \<open>
  Claim C8, amended. If a registered writer sends the chat payload \<open>M\<close> and the insert
  succeeds (the database is open and the step completes), and then any registered client
  sends \<open>get_history\<close>, the snapshot returned to that client is not empty and ends with
  the record \<open>username: M\<close> of the sender's stored name, after the older records and a
  newline when there are older records.
\<close>

theorem chat_round_trip:
  assumes "find_client w (clients_head s) = Some c"
    and "strcasecmp_eq (role c) ''WRITER''"
    and "\<not> strncmp_eq msg ''username:'' 9"
    and "\<not> strncmp_eq msg ''role:'' 5"
    and "\<not> strncmp_eq msg ''get_history'' 11"
    and "db s = Some tbl"
    and "s' = fst (ws_callback w (LWS_CALLBACK_RECEIVE msg None) s)"
    and "find_client w2 (clients_head s') = Some c2"
    and "strncmp_eq msg2 ''get_history'' 11"
  shows "snd (ws_callback w2 (LWS_CALLBACK_RECEIVE msg2 e2) s') =
           [Write w2 ((if last_rows 499 tbl = [] then []
                       else join_lines (map format_row (last_rows 499 tbl)) @ [CHR 0x0A])
                      @ username c @ '': '' @ cstr msg)]
         \<and> snd (ws_callback w2 (LWS_CALLBACK_RECEIVE msg2 e2) s') \<noteq> [Write w2 []]"
proof -
  have "ws_callback w (LWS_CALLBACK_RECEIVE msg None) s = on_chat c msg None s"
    by (rule receive_chat [OF assms(1,3,4,5)])
  then have s': "s' = s\<lparr>db := Some (tbl @ [(username c, cstr msg)])\<rparr>"
    by (simp add: assms(7) on_chat_writer(1) [OF assms(2,6)])
  have "ws_callback w2 (LWS_CALLBACK_RECEIVE msg2 e2) s' = on_get_history c2 s'"
    by (rule receive_get_history [OF assms(8,9)])
  then show ?thesis
    using find_client_wsi [OF assms(8)]
    by (simp add: s' on_get_history_def snapshot_after_insert send_to_client_def)
qed

theorem chat_round_trip_witness:
  "find_client 1 (clients_head (fst (run writer_and_guest (server_start []))))
     = Some \<lparr>wsi = 1, username = ''Anonymous'', role = ''WRITER''\<rparr>
   \<and> strcasecmp_eq ''WRITER'' ''WRITER''
   \<and> \<not> strncmp_eq ''hi'' ''username:'' 9
   \<and> \<not> strncmp_eq ''hi'' ''role:'' 5
   \<and> \<not> strncmp_eq ''hi'' ''get_history'' 11
   \<and> db (fst (run writer_and_guest (server_start []))) = Some []
   \<and> find_client 2 (clients_head (fst (ws_callback 1 (LWS_CALLBACK_RECEIVE ''hi'' None)
                           (fst (run writer_and_guest (server_start []))))))
       = Some \<lparr>wsi = 2, username = ''Anonymous'', role = ''NONE''\<rparr>
   \<and> strncmp_eq ''get_history'' ''get_history'' 11
   \<and> snd (ws_callback 2 (LWS_CALLBACK_RECEIVE ''get_history'' None)
          (fst (ws_callback 1 (LWS_CALLBACK_RECEIVE ''hi'' None)
                 (fst (run writer_and_guest (server_start []))))))
     = [Write 2 ''Anonymous: hi'']"
proof -
  let ?s = "fst (run writer_and_guest (server_start []))"
  let ?c = "\<lparr>wsi = 1, username = ''Anonymous'', role = ''WRITER''\<rparr>"
  let ?s' = "fst (ws_callback 1 (LWS_CALLBACK_RECEIVE ''hi'' None) ?s)"
  have h1: "find_client 1 (clients_head ?s) = Some ?c"
    by (simp add: writer_and_guest_state)
  have h2: "strcasecmp_eq (role ?c) ''WRITER''"
    by (simp add: string_defs)
  have h3: "\<not> strncmp_eq ''hi'' ''username:'' 9"
    and h4: "\<not> strncmp_eq ''hi'' ''role:'' 5"
    and h5: "\<not> strncmp_eq ''hi'' ''get_history'' 11"
    and h9: "strncmp_eq ''get_history'' ''get_history'' 11"
    by (simp_all add: strncmp_eq_def cstr_def)
  have h6: "db ?s = Some []"
    by (simp add: writer_and_guest_state)
  have h8: "find_client 2 (clients_head ?s')
              = Some \<lparr>wsi = 2, username = ''Anonymous'', role = ''NONE''\<rparr>"
    unfolding writer_and_guest_state by (simp add: handler_defs string_defs)
  from chat_round_trip [OF h1 h2 h3 h4 h5 h6 refl h8 h9, of None]
  have "snd (ws_callback 2 (LWS_CALLBACK_RECEIVE ''get_history'' None) ?s')
          = [Write 2 ''Anonymous: hi'']"
    by (simp add: last_rows_def cstr_def)
  with h1 h2 h3 h4 h5 h6 h8 h9 show ?thesis by simp
qed

lemma departure_notice_fits:
  assumes "well_started s" and "find_client w (clients_head s) = Some c"
  shows "snprintf 200 (''System: '' @ username c @ '' disconnected.'')
           = ''System: '' @ username c @ '' disconnected.''"
proof -
  from assms(1) find_client_in_set [OF assms(2)]
  have "length (username c) < 64"
    by (auto simp: well_started_def list_all_iff MAX_NAME_LEN_def)
  then show ?thesis by (simp add: snprintf_fits)
qed

text \<open>
  Claim C9, as stated: the departure notice of a closing writer is broadcast before the
  writer is removed from the list, so the list it is sent to still holds the writer. It
  fails: the notice is built first, the client is removed, and only then is the notice
  broadcast. When the writer 1 closes, client 2 alone is sent the notice and the counts.
\<close>

theorem departure_order_counterexample:
  "map wsi (clients_head (fst (run writer_and_guest (server_start [])))) = [2, 1]
   \<and> snd (ws_callback 1 LWS_CALLBACK_CLOSED (fst (run writer_and_guest (server_start []))))
     = [Write 2 ''System: Anonymous disconnected.'', Write 2 ''SYSTEM_COUNTS:0:0'']
   \<and> Write 1 ''System: Anonymous disconnected.''
       \<notin> set (snd (ws_callback 1 LWS_CALLBACK_CLOSED
                     (fst (run writer_and_guest (server_start [])))))"
  unfolding writer_and_guest_state
  by (simp add: handler_defs string_defs fmt_d_small)

text \<open>
  Claim C9, amended. When a client with the role Writer closes, the departure notice is
  computed from the name it has before the removal, the client is removed from the list,
  then the notice is broadcast to the clients that remain, then the counts of the
  remaining list are broadcast to them. When any other client closes, it is removed and
  only the counts of the remaining list are broadcast.
\<close>

theorem close_sequence:
  assumes "s = fst (run evs (server_start tbl0))"
  shows "ws_callback w LWS_CALLBACK_CLOSED s =
    (s\<lparr>clients_head := remove_client w (clients_head s)\<rparr>,
     (case find_client w (clients_head s) of
        Some c \<Rightarrow>
          if strcasecmp_eq (role c) ''WRITER''
          then map (\<lambda>p. Write (wsi p) (''System: '' @ username c @ '' disconnected.''))
                 (remove_client w (clients_head s))
          else []
      | None \<Rightarrow> [])
     @ map (\<lambda>p. Write (wsi p) (counts_line (remove_client w (clients_head s))))
         (remove_client w (clients_head s)))"
proof -
  have ws: "well_started s"
    unfolding assms by (rule well_started_reachable)
  show ?thesis
  proof (cases "find_client w (clients_head s)")
    case None
    then show ?thesis by (simp add: broadcast_counts_map)
  next
    case (Some c)
    then show ?thesis
      using departure_notice_fits [OF ws Some]
      by (simp add: broadcast_counts_map broadcast_text_map Let_def)
  qed
qed

theorem close_sequence_witness:
  "find_client 1 (clients_head (fst (run writer_and_guest (server_start []))))
     = Some \<lparr>wsi = 1, username = ''Anonymous'', role = ''WRITER''\<rparr>
   \<and> ws_callback 1 LWS_CALLBACK_CLOSED (fst (run writer_and_guest (server_start [])))
     = (\<lparr>clients_head = [\<lparr>wsi = 2, username = ''Anonymous'', role = ''NONE''\<rparr>],
         db = Some []\<rparr>,
        [Write 2 ''System: Anonymous disconnected.'', Write 2 ''SYSTEM_COUNTS:0:0''])
   \<and> ws_callback 2 LWS_CALLBACK_CLOSED (fst (run writer_and_guest (server_start [])))
     = (\<lparr>clients_head = [\<lparr>wsi = 1, username = ''Anonymous'', role = ''WRITER''\<rparr>],
         db = Some []\<rparr>,
        [Write 1 ''SYSTEM_COUNTS:0:1''])"
proof -
  let ?s = "fst (run writer_and_guest (server_start []))"
  have h1: "find_client 1 (clients_head ?s)
              = Some \<lparr>wsi = 1, username = ''Anonymous'', role = ''WRITER''\<rparr>"
    by (simp add: writer_and_guest_state)
  from close_sequence [OF refl, of 1 writer_and_guest "[]"]
  have c1: "ws_callback 1 LWS_CALLBACK_CLOSED ?s
     = (\<lparr>clients_head = [\<lparr>wsi = 2, username = ''Anonymous'', role = ''NONE''\<rparr>],
         db = Some []\<rparr>,
        [Write 2 ''System: Anonymous disconnected.'', Write 2 ''SYSTEM_COUNTS:0:0''])"
    by (simp add: writer_and_guest_state counts_line_def is_writer_def is_reader_def
          fmt_d_small string_defs)
  from close_sequence [OF refl, of 2 writer_and_guest "[]"]
  have c2: "ws_callback 2 LWS_CALLBACK_CLOSED ?s
     = (\<lparr>clients_head = [\<lparr>wsi = 1, username = ''Anonymous'', role = ''WRITER''\<rparr>],
         db = Some []\<rparr>,
        [Write 1 ''SYSTEM_COUNTS:0:1''])"
    by (simp add: writer_and_guest_state counts_line_def is_writer_def is_reader_def
          fmt_d_small string_defs)
  from h1 c1 c2 show ?thesis by blast
qed

lemma cstr_no_nul: "CHR 0x00 \<notin> set bs \<Longrightarrow> cstr bs = bs"
  by (auto simp: cstr_def takeWhile_eq_all_conv)

lemma receive_username:
  assumes "find_client w (clients_head s) = Some c"
    and "strncmp_eq msg ''username:'' 9"
  shows "ws_callback w (LWS_CALLBACK_RECEIVE msg e) s =
           (s\<lparr>clients_head :=
                update_client w (\<lambda>c. c\<lparr>username := normalized_name (drop 9 msg)\<rparr>)
                  (clients_head s)\<rparr>, [])"
  using assms
  by (simp add: on_username_def normalized_name_def cstr_skip_blanks snprintf_def
        MAX_NAME_LEN_def Let_def)

text \<open>
  Claim C10. A frame with the prefix \<open>username:\<close> from a registered client, whatever
  its role, stores as its display name the text after the prefix (read as a C string,
  which is all of it when the frame has no NUL byte) without its leading spaces and
  tabs, cut to 63 bytes. Nothing is sent. A text of spaces and tabs only gives the
  empty name.
\<close>

theorem username_normalization:
  assumes "find_client w (clients_head s) = Some c"
    and "strncmp_eq msg ''username:'' 9"
  shows "ws_callback w (LWS_CALLBACK_RECEIVE msg e) s =
           (s\<lparr>clients_head :=
                update_client w
                  (\<lambda>c. c\<lparr>username := take 63 (dropWhile is_blank (cstr (drop 9 msg)))\<rparr>)
                  (clients_head s)\<rparr>, [])
         \<and> find_client w (clients_head (fst (ws_callback w (LWS_CALLBACK_RECEIVE msg e) s)))
             = Some (c\<lparr>username := take 63 (dropWhile is_blank (cstr (drop 9 msg)))\<rparr>)
         \<and> (list_all is_blank (cstr (drop 9 msg)) \<longrightarrow>
              map_option username
                (find_client w (clients_head (fst (ws_callback w (LWS_CALLBACK_RECEIVE msg e) s))))
              = Some [])
         \<and> (CHR 0x00 \<notin> set msg \<longrightarrow> cstr (drop 9 msg) = drop 9 msg)"
proof -
  let ?n = "take 63 (dropWhile is_blank (cstr (drop 9 msg)))"
  have res: "ws_callback w (LWS_CALLBACK_RECEIVE msg e) s =
           (s\<lparr>clients_head := update_client w (\<lambda>c. c\<lparr>username := ?n\<rparr>) (clients_head s)\<rparr>, [])"
    using receive_username [OF assms] by (simp only: normalized_name_def)
  have found: "find_client w (update_client w (\<lambda>c. c\<lparr>username := ?n\<rparr>) (clients_head s))
                 = Some (c\<lparr>username := ?n\<rparr>)"
    using assms(1) by (rule find_update_client) simp
  have blank: "list_all is_blank (cstr (drop 9 msg)) \<Longrightarrow> ?n = []"
    by (simp add: list_all_iff)
  have nul: "CHR 0x00 \<notin> set msg \<Longrightarrow> cstr (drop 9 msg) = drop 9 msg"
    by (rule cstr_no_nul) (auto dest: in_set_dropD)
  show ?thesis
    unfolding res using found blank nul by simp
qed

theorem username_normalization_witness:
  "find_client 1 (clients_head (fst (run lone_guest (server_start []))))
     = Some \<lparr>wsi = 1, username = ''Anonymous'', role = ''NONE''\<rparr>
   \<and> strncmp_eq (''username: '' @ [CHR 0x09] @ '' '') ''username:'' 9
   \<and> list_all is_blank (cstr (drop 9 (''username: '' @ [CHR 0x09] @ '' '')))
   \<and> CHR 0x00 \<notin> set (''username: '' @ [CHR 0x09] @ '' '')
   \<and> ws_callback 1 (LWS_CALLBACK_RECEIVE (''username: '' @ [CHR 0x09] @ '' '') None)
        (fst (run lone_guest (server_start [])))
     = (\<lparr>clients_head = [\<lparr>wsi = 1, username = [], role = ''NONE''\<rparr>], db = Some []\<rparr>, [])
   \<and> snd (ws_callback 1 (LWS_CALLBACK_RECEIVE (''username:  Ada'' @ [CHR 0x09]) None)
        (fst (run lone_guest (server_start []))))
     = []"
proof -
  let ?s = "fst (run lone_guest (server_start []))"
  let ?c = "\<lparr>wsi = 1, username = ''Anonymous'', role = ''NONE''\<rparr>"
  let ?m = "''username: '' @ [CHR 0x09] @ '' ''"
  have h1: "find_client 1 (clients_head ?s) = Some ?c"
    by (simp add: lone_guest_state)
  have h2: "strncmp_eq ?m ''username:'' 9"
    and h2': "strncmp_eq (''username:  Ada'' @ [CHR 0x09]) ''username:'' 9"
    by (simp_all add: strncmp_eq_def cstr_def)
  have h3: "list_all is_blank (cstr (drop 9 ?m))"
    by (simp add: cstr_def is_blank_def)
  have h4: "CHR 0x00 \<notin> set ?m"
    by simp
  from username_normalization [OF h1 h2, of None]
  have r1: "ws_callback 1 (LWS_CALLBACK_RECEIVE ?m None) ?s
     = (\<lparr>clients_head = [\<lparr>wsi = 1, username = [], role = ''NONE''\<rparr>], db = Some []\<rparr>, [])"
    by (simp add: lone_guest_state cstr_def is_blank_def)
  from username_normalization [OF h1 h2', of None]
  have r2: "snd (ws_callback 1 (LWS_CALLBACK_RECEIVE (''username:  Ada'' @ [CHR 0x09]) None) ?s)
              = []"
    by simp
  from h1 h2 h3 h4 r1 r2 show ?thesis by blast
qed

end
